theory Spec2Isabelle
  imports Complex_Main
begin

section \<open>Python values\<close>

text \<open>
  Webhook payloads are the result of \<open>json.loads\<close>: \<open>None\<close>, booleans, integers, floats,
  strings, lists and dicts. A dict is an association list read by its first binding of a
  key. A \<open>datetime\<close> (the result of \<open>parse_datetime\<close>) is a further kind of value a record
  attribute can hold. Strings are byte strings; the few non-ASCII literals of the source
  (log and error messages) are written in ASCII.
\<close>

datatype pyfloat = Finite rat | PosInf | NegInf | NaN

datatype pyval =
    PNone
  | PBool bool
  | PInt int
  | PFloat pyfloat
  | PStr string
  | PList "pyval list"
  | PDict "(string \<times> pyval) list"
  | PDateTime int

type_synonym pydict = "(string \<times> pyval) list"

text \<open>Truth value testing, as \<open>if x:\<close>, \<open>not x\<close> and \<open>x or y\<close> use it.\<close>

fun truthy :: "pyval \<Rightarrow> bool" where
  "truthy PNone = False"
| "truthy (PBool b) = b"
| "truthy (PInt i) = (i \<noteq> 0)"
| "truthy (PFloat f) = (f \<noteq> Finite 0)"
| "truthy (PStr s) = (s \<noteq> [])"
| "truthy (PList xs) = (xs \<noteq> [])"
| "truthy (PDict d) = (d \<noteq> [])"
| "truthy (PDateTime t) = True"

text \<open>\<open>x or y\<close>: \<open>x\<close> when it is truthy, else \<open>y\<close>.\<close>

definition py_or :: "pyval \<Rightarrow> pyval \<Rightarrow> pyval" where
  "py_or x y = (if truthy x then x else y)"

text \<open>\<open>d.get(k)\<close> and \<open>d.get(k, default)\<close> on a dict.\<close>

definition dget :: "pydict \<Rightarrow> string \<Rightarrow> pyval" where
  "dget d k = (case map_of d k of None \<Rightarrow> PNone | Some v \<Rightarrow> v)"

definition dget_default :: "pydict \<Rightarrow> string \<Rightarrow> pyval \<Rightarrow> pyval" where
  "dget_default d k dflt = (case map_of d k of None \<Rightarrow> dflt | Some v \<Rightarrow> v)"

text \<open>\<open>k in d\<close>.\<close>

definition dcontains :: "pydict \<Rightarrow> string \<Rightarrow> bool" where
  "dcontains d k = (map_of d k \<noteq> None)"

section \<open>Exceptions\<close>

text \<open>
  An exception is its class and the text \<open>str(e)\<close>. \<open>JSONDecodeError\<close> is a subclass of
  \<open>ValueError\<close>; the two \<open>ApiException\<close> classes of the CRM library (contacts, deals)
  carry the HTTP status, which may be absent.
\<close>

datatype exn_class =
    ValueError
  | JSONDecodeError
  | AttributeError
  | TypeError
  | ContactApiException "int option"
  | DealApiException "int option"
  | OtherException

datatype exn = Exn exn_class string

fun exn_class_of :: "exn \<Rightarrow> exn_class" where
  "exn_class_of (Exn c m) = c"

fun exn_str :: "exn \<Rightarrow> string" where
  "exn_str (Exn c m) = m"

definition is_ValueError :: "exn \<Rightarrow> bool" where
  "is_ValueError e = (exn_class_of e = ValueError \<or> exn_class_of e = JSONDecodeError)"

section \<open>Library functions\<close>

text \<open>
  Functions of the standard library and the web framework whose code is not part of the
  repository are parameters: \<open>parse_datetime\<close> (returns a datetime, returns \<open>None\<close>, or
  raises), \<open>float\<close> on an integer and on a string, \<open>str\<close> on a value that is not a string,
  and \<open>json.loads\<close> on a request body.
\<close>

record lib =
  parse_datetime :: "string \<Rightarrow> exn + int option"
  float_of_int :: "int \<Rightarrow> exn + pyfloat"
  float_of_str :: "string \<Rightarrow> exn + pyfloat"
  str_other :: "pyval \<Rightarrow> string"
  json_loads :: "string \<Rightarrow> exn + pyval"

text \<open>\<open>float(x)\<close>.\<close>

definition py_float :: "lib \<Rightarrow> pyval \<Rightarrow> exn + pyfloat" where
  "py_float L v =
     (case v of
        PFloat f \<Rightarrow> Inr f
      | PBool b \<Rightarrow> Inr (Finite (if b then 1 else 0))
      | PInt i \<Rightarrow> float_of_int L i
      | PStr s \<Rightarrow> float_of_str L s
      | _ \<Rightarrow> Inl (Exn TypeError ''float() argument must be a string or a real number''))"

text \<open>\<open>str(x)\<close>, also the conversion an f-string applies.\<close>

definition py_str :: "lib \<Rightarrow> pyval \<Rightarrow> string" where
  "py_str L v = (case v of PStr s \<Rightarrow> s | _ \<Rightarrow> str_other L v)"

text \<open>\<open>parse_datetime(x) if isinstance(x, str) else x\<close>.\<close>

definition parse_if_str :: "lib \<Rightarrow> pyval \<Rightarrow> exn + pyval" where
  "parse_if_str L v =
     (case v of
        PStr s \<Rightarrow>
          (case parse_datetime L s of
             Inl e \<Rightarrow> Inl e
           | Inr None \<Rightarrow> Inr PNone
           | Inr (Some t) \<Rightarrow> Inr (PDateTime t))
      | _ \<Rightarrow> Inr v)"

section \<open>The proposal record and its table\<close>

text \<open>
  \<open>GigradarProposal\<close> (models.py). An attribute holds the Python value the code assigns to
  it. \<open>pk\<close> is the automatic primary key; \<open>created\<close> and \<open>updated\<close> are the
  \<open>auto_now_add\<close> and \<open>auto_now\<close> columns, written by the object-relational mapper.
\<close>

record proposal =
  pk :: nat
  proposal_id :: pyval
  opportunity_id :: pyval
  job_id :: pyval
  status :: pyval
  sent_at :: pyval
  scheduled_at :: pyval
  created_at :: pyval
  has_error :: pyval
  error_code :: pyval
  error_message :: pyval
  scanner_id :: pyval
  scanner_name :: pyval
  team_id :: pyval
  team_name :: pyval
  job_title :: pyval
  job_budget :: pyval
  job_type :: pyval
  client_email :: pyval
  client_name :: pyval
  client_company :: pyval
  hubspot_contact_id :: pyval
  hubspot_deal_id :: pyval
  raw_data :: pyval
  created :: nat
  updated :: nat

text \<open>
  The table is the list of its rows and the next primary key. The mapper's column
  coercion and validation are outside the source: \<open>save\<close> writes the attributes as they
  are.
\<close>

record store =
  rows :: "proposal list"
  next_pk :: nat

text \<open>A new row with the field defaults of the model class.\<close>

definition bare_proposal :: "nat \<Rightarrow> pyval \<Rightarrow> nat \<Rightarrow> proposal" where
  "bare_proposal k pid now =
     \<lparr> pk = k, proposal_id = pid, opportunity_id = PStr [], job_id = PNone,
       status = PNone, sent_at = PNone, scheduled_at = PNone, created_at = PNone,
       has_error = PBool False, error_code = PNone, error_message = PNone,
       scanner_id = PNone, scanner_name = PNone, team_id = PNone, team_name = PNone,
       job_title = PNone, job_budget = PNone, job_type = PNone,
       client_email = PNone, client_name = PNone, client_company = PNone,
       hubspot_contact_id = PNone, hubspot_deal_id = PNone,
       raw_data = PDict [], created = now, updated = now \<rparr>"

text \<open>\<open>cls.objects.get_or_create(proposal_id=..., defaults={})\<close>.\<close>

definition get_or_create :: "store \<Rightarrow> pyval \<Rightarrow> nat \<Rightarrow> proposal \<times> store" where
  "get_or_create st pid now =
     (case find (\<lambda>r. proposal_id r = pid) (rows st) of
        Some r \<Rightarrow> (r, st)
      | None \<Rightarrow>
          (let r = bare_proposal (next_pk st) pid now
           in (r, \<lparr> rows = rows st @ [r], next_pk = Suc (next_pk st) \<rparr>)))"

text \<open>\<open>proposal.save()\<close>: the row of that primary key is rewritten, \<open>updated\<close> is set.\<close>

definition save :: "store \<Rightarrow> proposal \<Rightarrow> nat \<Rightarrow> proposal \<times> store" where
  "save st p now =
     (let p' = p\<lparr>updated := now\<rparr>
      in (p', st\<lparr>rows := map (\<lambda>r. if pk r = pk p then p' else r) (rows st)\<rparr>))"

section \<open>create\_from\_webhook\_data\<close>

text \<open>A timestamp assignment inside \<open>try: ... except: pass\<close>.\<close>

definition set_sent_at :: "lib \<Rightarrow> pydict \<Rightarrow> proposal \<Rightarrow> proposal" where
  "set_sent_at L d p =
     (if dcontains d ''sent'' then
        (case parse_if_str L (dget d ''sent'') of
           Inl e \<Rightarrow> p
         | Inr v \<Rightarrow> p\<lparr>sent_at := v\<rparr>)
      else p)"

definition set_scheduled_at :: "lib \<Rightarrow> pydict \<Rightarrow> proposal \<Rightarrow> proposal" where
  "set_scheduled_at L d p =
     (if dcontains d ''scheduledAt'' then
        (case parse_if_str L (dget d ''scheduledAt'') of
           Inl e \<Rightarrow> p
         | Inr v \<Rightarrow> p\<lparr>scheduled_at := v\<rparr>)
      else p)"

definition set_created_at :: "lib \<Rightarrow> pydict \<Rightarrow> proposal \<Rightarrow> proposal" where
  "set_created_at L d p =
     (if dcontains d ''createdAt'' \<or> dcontains d ''created_at'' then
        (case parse_if_str L (py_or (dget d ''createdAt'') (dget d ''created_at'')) of
           Inl e \<Rightarrow> p
         | Inr v \<Rightarrow> p\<lparr>created_at := v\<rparr>)
      else p)"

text \<open>The error flag, code and message; scanner and team.\<close>

definition set_errors :: "pydict \<Rightarrow> proposal \<Rightarrow> proposal" where
  "set_errors d p =
     p\<lparr> has_error := py_or (dget_default d ''error'' (PBool False))
                            (dget_default d ''hasError'' (PBool False)),
        error_code := py_or (dget d ''errorCode'') (dget d ''error_code''),
        error_message := py_or (dget d ''errorMessage'') (dget d ''error_message'') \<rparr>"

definition set_scanner_team :: "pydict \<Rightarrow> proposal \<Rightarrow> proposal" where
  "set_scanner_team d p =
     p\<lparr> scanner_id := py_or (dget d ''scannerId'') (dget d ''scanner_id''),
        scanner_name := py_or (dget d ''scannerName'') (dget d ''scanner_name''),
        team_id := py_or (dget d ''teamId'') (dget d ''team_id''),
        team_name := py_or (dget d ''teamName'') (dget d ''team_name'') \<rparr>"

text \<open>The budget: \<open>float(budget)\<close> inside \<open>try: ... except: pass\<close>, only for a truthy budget.\<close>

definition set_job_budget :: "lib \<Rightarrow> pydict \<Rightarrow> proposal \<Rightarrow> proposal" where
  "set_job_budget L job p =
     (let budget = py_or (py_or (dget job ''budget'') (dget job ''hourlyRate''))
                         (dget job ''fixedPrice'')
      in if truthy budget then
           (case py_float L budget of
              Inl e \<Rightarrow> p
            | Inr f \<Rightarrow> p\<lparr>job_budget := PFloat f\<rparr>)
         else p)"

text \<open>The client, from the nested dict or from the flat keys of the job.\<close>

definition set_client :: "pydict \<Rightarrow> proposal \<Rightarrow> proposal" where
  "set_client job p =
     (case dget_default job ''client'' (PDict []) of
        PDict client \<Rightarrow>
          p\<lparr> client_email := dget client ''email'',
             client_name := dget client ''name'',
             client_company := dget client ''company'' \<rparr>
      | _ \<Rightarrow>
          p\<lparr> client_email := dget job ''clientEmail'',
             client_name := dget job ''clientName'',
             client_company := dget job ''companyName'' \<rparr>)"

definition set_job :: "lib \<Rightarrow> pydict \<Rightarrow> proposal \<Rightarrow> proposal" where
  "set_job L d p =
     (case dget_default d ''job'' (PDict []) of
        PDict job \<Rightarrow>
          (let p1 = p\<lparr>job_title := py_or (dget job ''title'') (dget job ''jobTitle'')\<rparr>;
               p2 = set_job_budget L job p1;
               p3 = p2\<lparr>job_type := py_or (dget job ''type'') (dget job ''jobType'')\<rparr>
           in set_client job p3)
      | _ \<Rightarrow> p)"

text \<open>All the assignments between \<open>get_or_create\<close> and \<open>save\<close>, in the order of the source.\<close>

definition assign_fields :: "lib \<Rightarrow> pydict \<Rightarrow> proposal \<Rightarrow> proposal" where
  "assign_fields L d p =
     (let p1 = p\<lparr> opportunity_id :=
                    py_or (py_or (dget d ''opportunityId'') (dget d ''opportunity_id'')) (PStr []),
                  job_id := py_or (py_or (dget d ''jobId'') (dget d ''job_id'')) (PStr []) \<rparr>;
          p2 = set_sent_at L d p1;
          p3 = set_scheduled_at L d p2;
          p4 = set_created_at L d p3;
          p5 = set_errors d p4;
          p6 = set_scanner_team d p5;
          p7 = set_job L d p6
      in p7\<lparr>raw_data := PDict d\<rparr>)"

text \<open>The identifier: \<open>data.get('id') or data.get('proposalId') or data.get('_id')\<close>.\<close>

definition extract_proposal_id :: "pydict \<Rightarrow> pyval" where
  "extract_proposal_id d = py_or (py_or (dget d ''id'') (dget d ''proposalId'')) (dget d ''_id'')"

definition no_proposal_id :: exn where
  "no_proposal_id = Exn ValueError ''Proposal ID not found in data''"

text \<open>
  The class method. The result is the exception raised or the saved instance, with the
  table as the call leaves it. A payload that is not a dict has no \<open>get\<close>.
\<close>

definition create_from_webhook_data ::
  "lib \<Rightarrow> nat \<Rightarrow> store \<Rightarrow> pyval \<Rightarrow> (exn + proposal) \<times> store" where
  "create_from_webhook_data L now st data =
     (case data of
        PDict d \<Rightarrow>
          (let pid = extract_proposal_id d
           in if \<not> truthy pid then (Inl no_proposal_id, st)
              else
                (let (p, st1) = get_or_create st pid now;
                     (p', st2) = save st1 (assign_fields L d p) now
                 in (Inr p', st2)))
      | _ \<Rightarrow> (Inl (Exn AttributeError ''object has no attribute get''), st))"

section \<open>The CRM client (services.py)\<close>

text \<open>
  The CRM is reached through a vendor library. Each call is recorded, in order, and its
  outcome is a parameter: a function of the calls made before it and of its arguments,
  which returns what the library returns or the exception it raises.
\<close>

datatype crm_call =
    ContactsCreate pydict
  | ContactsSearch pyval
  | DealsCreate pydict
  | AssociationsCreate string string

record crm =
  contacts_create :: "crm_call list \<Rightarrow> pydict \<Rightarrow> exn + string"
  contacts_search :: "crm_call list \<Rightarrow> pyval \<Rightarrow> exn + string list"
  deals_create :: "crm_call list \<Rightarrow> pydict \<Rightarrow> exn + string"
  associations_create :: "crm_call list \<Rightarrow> string \<Rightarrow> string \<Rightarrow> exn option"

datatype log_level = INFO | WARNING | ERROR

text \<open>
  What a request can change: the proposal table, the calls made to the CRM and the log. A
  log entry is its level and a short tag for the message.
\<close>

record world =
  db :: store
  crm_calls :: "crm_call list"
  logs :: "(log_level \<times> string) list"

definition log_msg :: "log_level \<Rightarrow> string \<Rightarrow> world \<Rightarrow> world" where
  "log_msg lvl tag w = w\<lparr>logs := logs w @ [(lvl, tag)]\<rparr>"

definition record_call :: "crm_call \<Rightarrow> world \<Rightarrow> world" where
  "record_call c w = w\<lparr>crm_calls := crm_calls w @ [c]\<rparr>"

text \<open>\<open>d[k] = v\<close> and \<open>d.update(kw)\<close> on a dict kept in insertion order.\<close>

fun dict_set :: "pydict \<Rightarrow> string \<Rightarrow> pyval \<Rightarrow> pydict" where
  "dict_set [] k v = [(k, v)]"
| "dict_set ((k', v') # d) k v = (if k' = k then (k, v) # d else (k', v') # dict_set d k v)"

definition dict_update :: "pydict \<Rightarrow> pydict \<Rightarrow> pydict" where
  "dict_update d kw = foldl (\<lambda>acc (k, v). dict_set acc k v) d kw"

text \<open>\<open>if v: d[k] = v\<close>.\<close>

definition set_if :: "string \<Rightarrow> pyval \<Rightarrow> pydict \<Rightarrow> pydict" where
  "set_if k v d = (if truthy v then dict_set d k v else d)"

text \<open>Truth value of an optional identifier (\<open>None\<close> or a string).\<close>

definition id_truthy :: "string option \<Rightarrow> bool" where
  "id_truthy x = (case x of None \<Rightarrow> False | Some s \<Rightarrow> s \<noteq> [])"

text \<open>\<open>HubSpotService.__init__\<close>: the access token, from the argument or the environment.\<close>

definition hubspot_service_init :: "(string \<Rightarrow> string option) \<Rightarrow> string option \<Rightarrow> exn + string" where
  "hubspot_service_init env access_token =
     (let tok = (if id_truthy access_token then access_token else env ''HUBSPOT_ACCESS_TOKEN'')
      in case tok of
           Some t \<Rightarrow> if t \<noteq> [] then Inr t
                     else Inl (Exn ValueError ''HUBSPOT_ACCESS_TOKEN is not set'')
         | None \<Rightarrow> Inl (Exn ValueError ''HUBSPOT_ACCESS_TOKEN is not set''))"

text \<open>\<open>_find_contact_by_email\<close>: the first result of the search, \<open>None\<close> on any exception.\<close>

definition find_contact_by_email :: "crm \<Rightarrow> world \<Rightarrow> pyval \<Rightarrow> string option \<times> world" where
  "find_contact_by_email C w email =
     (let w1 = record_call (ContactsSearch email) w
      in case contacts_search C (crm_calls w) email of
           Inr results \<Rightarrow> ((case results of [] \<Rightarrow> None | x # _ \<Rightarrow> Some x), w1)
         | Inl e \<Rightarrow> (None, log_msg ERROR ''contact search failed'' w1))"

text \<open>
  \<open>create_contact\<close>. Only the contacts \<open>ApiException\<close> is caught; any other exception
  of the call leaves the method.
\<close>

definition contact_properties ::
  "pyval \<Rightarrow> pyval \<Rightarrow> pyval \<Rightarrow> pyval \<Rightarrow> pyval \<Rightarrow> pydict \<Rightarrow> pydict" where
  "contact_properties email firstname lastname phone company kwargs =
     dict_update
       (set_if ''company'' company
         (set_if ''phone'' phone
           (set_if ''lastname'' lastname
             (set_if ''firstname'' firstname [(''email'', email)]))))
       kwargs"

definition create_contact ::
  "crm \<Rightarrow> world \<Rightarrow> pyval \<Rightarrow> pyval \<Rightarrow> pyval \<Rightarrow> pyval \<Rightarrow> pyval \<Rightarrow> pydict
     \<Rightarrow> (exn + string option) \<times> world" where
  "create_contact C w email firstname lastname phone company kwargs =
     (let properties = contact_properties email firstname lastname phone company kwargs;
          w1 = record_call (ContactsCreate properties) w
      in case contacts_create C (crm_calls w) properties of
           Inr cid \<Rightarrow> (Inr (Some cid), log_msg INFO ''contact created'' w1)
         | Inl e \<Rightarrow>
             (case exn_class_of e of
                ContactApiException st \<Rightarrow>
                  (let w2 = log_msg ERROR ''contact creation failed'' w1
                   in if st = Some 409 then
                        (let (found, w3) =
                               find_contact_by_email C (log_msg INFO ''contact already exists'' w2) email
                         in (Inr found, w3))
                      else (Inr None, w2))
              | _ \<Rightarrow> (Inl e, w1)))"

text \<open>\<open>_associate_deal_to_contact\<close>: every exception is logged and dropped.\<close>

definition associate_deal_to_contact :: "crm \<Rightarrow> world \<Rightarrow> string \<Rightarrow> string \<Rightarrow> world" where
  "associate_deal_to_contact C w deal contact =
     (let w1 = record_call (AssociationsCreate contact deal) w
      in case associations_create C (crm_calls w) contact deal of
           None \<Rightarrow> log_msg INFO ''deal associated with contact'' w1
         | Some e \<Rightarrow> log_msg ERROR ''association failed'' w1)"

text \<open>\<open>create_deal\<close>. Only the deals \<open>ApiException\<close> is caught.\<close>

definition deal_properties ::
  "lib \<Rightarrow> pyval \<Rightarrow> pyval \<Rightarrow> pyval \<Rightarrow> pyval \<Rightarrow> pyval \<Rightarrow> pydict \<Rightarrow> pydict" where
  "deal_properties L dealname amount closedate dealstage pipeline kwargs =
     dict_update
       (set_if ''pipeline'' pipeline
         (set_if ''dealstage'' dealstage
           (set_if ''closedate'' closedate
             ((if truthy amount then (\<lambda>d. dict_set d ''amount'' (PStr (py_str L amount)))
               else (\<lambda>d. d))
               [(''dealname'', dealname)]))))
       kwargs"

definition create_deal ::
  "lib \<Rightarrow> crm \<Rightarrow> world \<Rightarrow> pyval \<Rightarrow> pyval \<Rightarrow> pyval \<Rightarrow> pyval \<Rightarrow> pyval \<Rightarrow> string option
     \<Rightarrow> pydict \<Rightarrow> (exn + string option) \<times> world" where
  "create_deal L C w dealname amount closedate dealstage pipeline contact kwargs =
     (let properties = deal_properties L dealname amount closedate dealstage pipeline kwargs;
          w1 = record_call (DealsCreate properties) w
      in case deals_create C (crm_calls w) properties of
           Inr deal \<Rightarrow>
             (let w2 = log_msg INFO ''deal created'' w1;
                  w3 = (case contact of
                          Some c \<Rightarrow> if c \<noteq> [] then associate_deal_to_contact C w2 deal c else w2
                        | None \<Rightarrow> w2)
              in (Inr (Some deal), w3))
         | Inl e \<Rightarrow>
             (case exn_class_of e of
                DealApiException st \<Rightarrow> (Inr None, log_msg ERROR ''deal creation failed'' w1)
              | _ \<Rightarrow> (Inl e, w1)))"

text \<open>\<open>s.lower().replace(' ', '_')\<close> on an ASCII string, and the placeholder address.\<close>

definition lower_char :: "char \<Rightarrow> char" where
  "lower_char c =
     (case map_of (zip ''ABCDEFGHIJKLMNOPQRSTUVWXYZ'' ''abcdefghijklmnopqrstuvwxyz'') c of
        Some l \<Rightarrow> l
      | None \<Rightarrow> c)"

definition placeholder_email :: "string \<Rightarrow> string" where
  "placeholder_email company_name =
     map (\<lambda>c. if c = CHR '' '' then CHR ''_'' else c) (map lower_char company_name)
       @ ''@gigradar.placeholder''"

text \<open>\<open>x[:500]\<close>: a string or a list is cut, any other value of a payload is not subscriptable.\<close>

definition slice500 :: "pyval \<Rightarrow> exn + pyval" where
  "slice500 v =
     (case v of
        PStr s \<Rightarrow> Inr (PStr (take 500 s))
      | PList xs \<Rightarrow> Inr (PList (take 500 xs))
      | _ \<Rightarrow> Inl (Exn TypeError ''object is not subscriptable''))"

text \<open>The result document of \<open>process_gigradar_opportunity\<close>.\<close>

record process_result =
  success :: bool
  contact_id :: "string option"
  deal_id :: "string option"
  errors :: "string list"

definition no_get :: exn where
  "no_get = Exn AttributeError ''object has no attribute get''"

text \<open>
  The contact step of the \<open>try\<close> block, for a job and a client that are dicts: with the
  client's email when there is one, else with the placeholder address made from the
  company name, which must then be a string (\<open>lower\<close> is a string method).
\<close>

definition process_contact ::
  "crm \<Rightarrow> world \<Rightarrow> pydict \<Rightarrow> pydict \<Rightarrow> (exn + string option) \<times> world" where
  "process_contact C w job client =
     (let client_email = py_or (dget client ''email'') (dget job ''clientEmail'')
      in if truthy client_email then
           create_contact C w client_email
             (py_or (dget client ''name'') (dget job ''clientName'')) PNone PNone
             (py_or (dget client ''company'') (dget job ''companyName'')) []
         else
           (case py_or (py_or (dget client ''company'') (dget job ''companyName''))
                       (PStr ''Unknown Company'') of
              PStr company_name \<Rightarrow>
                create_contact C w (PStr (placeholder_email company_name)) PNone PNone PNone
                  (PStr company_name) []
            | _ \<Rightarrow> (Inl (Exn AttributeError ''object has no attribute lower''), w)))"

text \<open>The deal step: the arguments are evaluated first, then \<open>create_deal\<close> is called.\<close>

definition process_deal ::
  "lib \<Rightarrow> crm \<Rightarrow> world \<Rightarrow> pydict \<Rightarrow> pydict \<Rightarrow> string option \<Rightarrow> (exn + string option) \<times> world" where
  "process_deal L C w od job contact =
     (let deal_name = PStr (''GigRadar Opportunity: ''
                             @ py_str L (dget_default job ''title'' (PStr ''Untitled Job'')));
          budget = py_or (dget job ''budget'') (dget job ''hourlyRate'');
          amount = (if truthy budget then PStr (py_str L budget) else PNone)
      in case slice500 (dget_default job ''description'' (PStr [])) of
           Inl e \<Rightarrow> (Inl e, w)
         | Inr description \<Rightarrow>
             create_deal L C w deal_name amount PNone (PStr ''appointmentscheduled'')
               (PStr ''default'') contact
               [(''gigradar_opportunity_id'', dget_default od ''id'' (PStr [])),
                (''gigradar_job_id'', dget_default od ''jobId'' (PStr [])),
                (''job_title'', dget_default job ''title'' (PStr [])),
                (''job_description'', description)])"

text \<open>
  The \<open>try\<close> block: the exception that leaves it, if any, with the result document and
  the world as they are at that point.
\<close>

definition process_try ::
  "lib \<Rightarrow> crm \<Rightarrow> world \<Rightarrow> pyval \<Rightarrow> process_result \<Rightarrow> exn option \<times> process_result \<times> world" where
  "process_try L C w opportunity_data result =
     (case opportunity_data of
        PDict od \<Rightarrow>
          (case dget_default od ''job'' (PDict []) of
             PDict job \<Rightarrow>
               (case dget_default job ''client'' (PDict []) of
                  PDict client \<Rightarrow>
                    (case process_contact C w job client of
                       (Inl e, w1) \<Rightarrow> (Some e, result, w1)
                     | (Inr contact, w1) \<Rightarrow>
                         (let result1 = result\<lparr>contact_id := contact\<rparr>
                          in case process_deal L C w1 od job contact of
                               (Inl e, w2) \<Rightarrow> (Some e, result1, w2)
                             | (Inr deal, w2) \<Rightarrow>
                                 (None, result1\<lparr>deal_id := deal, success := id_truthy deal\<rparr>, w2)))
                | _ \<Rightarrow> (Some no_get, result, w))
           | _ \<Rightarrow> (Some no_get, result, w))
      | _ \<Rightarrow> (Some no_get, result, w))"

text \<open>\<open>process_gigradar_opportunity\<close>: the \<open>try\<close> block and its \<open>except Exception\<close>.\<close>

definition process_gigradar_opportunity ::
  "lib \<Rightarrow> crm \<Rightarrow> world \<Rightarrow> pyval \<Rightarrow> (exn + process_result) \<times> world" where
  "process_gigradar_opportunity L C w opportunity_data =
     (case process_try L C w opportunity_data
             \<lparr>success = False, contact_id = None, deal_id = None, errors = []\<rparr> of
        (None, result, w') \<Rightarrow> (Inr result, w')
      | (Some e, result, w') \<Rightarrow>
          (Inr (result\<lparr>errors := errors result @ [exn_str e]\<rparr>),
           log_msg ERROR ''opportunity processing failed'' w'))"

section \<open>The webhook view (views.py)\<close>

text \<open>
  A request is the token of its path, its body and its \<open>Authorization\<close> header if it has
  one. The environment gives \<open>os.getenv\<close>. A response is the status and the JSON document
  of a \<open>JsonResponse\<close>.
\<close>

record request =
  webhook_token :: string
  body :: string
  http_authorization :: "string option"

record response =
  status_code :: nat
  content :: pydict

definition JsonResponse :: "pydict \<Rightarrow> nat \<Rightarrow> response" where
  "JsonResponse doc st = \<lparr> status_code = st, content = doc \<rparr>"

text \<open>Truth value of \<open>os.getenv(name)\<close>: the variable is set and not empty.\<close>

definition env_set :: "(string \<Rightarrow> string option) \<Rightarrow> string \<Rightarrow> bool" where
  "env_set env name = id_truthy (env name)"

definition opt_id :: "string option \<Rightarrow> pyval" where
  "opt_id x = (case x of None \<Rightarrow> PNone | Some s \<Rightarrow> PStr s)"

text \<open>
  \<open>_handle_opportunity_create\<close>: the service is constructed and the opportunity
  processed; \<open>ValueError\<close> and every other exception are answered with status 200.
\<close>

definition handle_opportunity_create ::
  "lib \<Rightarrow> crm \<Rightarrow> (string \<Rightarrow> string option) \<Rightarrow> world \<Rightarrow> pyval \<Rightarrow> (exn + response) \<times> world" where
  "handle_opportunity_create L C env w data =
     (let (r, w1) =
            (case hubspot_service_init env None of
               Inl e \<Rightarrow> (Inl e, w)
             | Inr tok \<Rightarrow> process_gigradar_opportunity L C w data)
      in case r of
           Inr result \<Rightarrow>
             if success result then
               (Inr (JsonResponse
                       [(''status'', PStr ''success''),
                        (''message'', PStr ''Opportunity processed successfully''),
                        (''contact_id'', opt_id (contact_id result)),
                        (''deal_id'', opt_id (deal_id result))] 200),
                log_msg INFO ''opportunity processed'' w1)
             else
               (Inr (JsonResponse
                       [(''status'', PStr ''partial_success''),
                        (''message'', PStr ''Opportunity processed with errors''),
                        (''errors'', PList (map PStr (errors result)))] 200),
                log_msg WARNING ''opportunity processed with errors'' w1)
         | Inl e \<Rightarrow>
             if is_ValueError e then
               (Inr (JsonResponse
                       [(''status'', PStr ''error''),
                        (''message'', PStr ''HubSpot configuration error'')] 200),
                log_msg ERROR ''HubSpot configuration error'' w1)
             else
               (Inr (JsonResponse
                       [(''status'', PStr ''error''),
                        (''message'', PStr ''Failed to process opportunity'')] 200),
                log_msg ERROR ''opportunity processing failed'' w1))"

text \<open>\<open>_handle_proposal_update\<close>: the proposal is saved; every exception is answered 200.\<close>

definition handle_proposal_update ::
  "lib \<Rightarrow> nat \<Rightarrow> world \<Rightarrow> pyval \<Rightarrow> (exn + response) \<times> world" where
  "handle_proposal_update L now w data =
     (case create_from_webhook_data L now (db w) data of
        (Inr p, st) \<Rightarrow>
          (Inr (JsonResponse
                  [(''status'', PStr ''success''),
                   (''message'', PStr ''Proposal saved successfully''),
                   (''proposal_id'', proposal_id p),
                   (''saved_at'', PDateTime (int (created p)))] 200),
           log_msg INFO ''proposal saved'' (w\<lparr>db := st\<rparr>))
      | (Inl e, st) \<Rightarrow>
          if is_ValueError e then
            (Inr (JsonResponse
                    [(''status'', PStr ''error''),
                     (''message'', PStr (''Failed to save proposal: '' @ exn_str e))] 200),
             log_msg ERROR ''proposal not saved'' (w\<lparr>db := st\<rparr>))
          else
            (Inr (JsonResponse
                    [(''status'', PStr ''error''),
                     (''message'', PStr ''Failed to process proposal'')] 200),
             log_msg ERROR ''proposal processing failed'' (w\<lparr>db := st\<rparr>)))"

text \<open>
  The \<open>try\<close> block of \<open>post\<close>: the token of the path, the body, the presence of a
  \<open>Basic\<close> header when a user name and a password are configured, then the event.
\<close>

definition post_try ::
  "lib \<Rightarrow> crm \<Rightarrow> (string \<Rightarrow> string option) \<Rightarrow> nat \<Rightarrow> world \<Rightarrow> request
     \<Rightarrow> (exn + response) \<times> world" where
  "post_try L C env now w req =
     (if env_set env ''WEBHOOK_TOKEN'' \<and> Some (webhook_token req) \<noteq> env ''WEBHOOK_TOKEN'' then
        (Inr (JsonResponse [(''error'', PStr ''Invalid webhook token'')] 401),
         log_msg WARNING ''invalid webhook token'' w)
      else
        (case json_loads L (body req) of
           Inl e \<Rightarrow>
             if exn_class_of e = JSONDecodeError then
               (Inr (JsonResponse [(''error'', PStr ''Invalid JSON format'')] 400),
                log_msg ERROR ''invalid JSON'' w)
             else (Inl e, w)
         | Inr payload \<Rightarrow>
             if env_set env ''WEBHOOK_USERNAME'' \<and> env_set env ''WEBHOOK_PASSWORD'' \<and>
                take 6 (case http_authorization req of None \<Rightarrow> [] | Some h \<Rightarrow> h) \<noteq> ''Basic ''
             then (Inr (JsonResponse [(''error'', PStr ''Authentication required'')] 401), w)
             else
               (case payload of
                  PDict p \<Rightarrow>
                    (let event_type = py_or (dget p ''event'') (dget p ''type'');
                         data = py_or (dget p ''data'') payload;
                         w1 = log_msg INFO ''webhook event received'' w
                     in if event_type = PStr ''GIGRADAR.OPPORTUNITY.CREATE'' then
                          handle_opportunity_create L C env w1 data
                        else if event_type = PStr ''GIGRADAR.PROPOSAL.UPDATE'' \<or>
                                event_type = PStr ''GIGRADAR.PROPOSAL.CREATE'' then
                          handle_proposal_update L now w1 data
                        else
                          (Inr (JsonResponse
                                  [(''status'', PStr ''received''),
                                   (''message'', PStr (''Event '' @ py_str L event_type
                                                        @ '' received but not processed''))] 200),
                           log_msg WARNING ''unknown event type'' w1))
                | _ \<Rightarrow> (Inl no_get, w))))"

text \<open>\<open>GigradarWebhookView.post\<close>: the \<open>try\<close> block and its \<open>except Exception\<close>.\<close>

definition post ::
  "lib \<Rightarrow> crm \<Rightarrow> (string \<Rightarrow> string option) \<Rightarrow> nat \<Rightarrow> world \<Rightarrow> request
     \<Rightarrow> (exn + response) \<times> world" where
  "post L C env now w req =
     (case post_try L C env now w req of
        (Inr r, w') \<Rightarrow> (Inr r, w')
      | (Inl e, w') \<Rightarrow>
          (Inr (JsonResponse
                  [(''status'', PStr ''error''),
                   (''message'', PStr ''Internal server error'')] 200),
           log_msg ERROR ''webhook processing failed'' w'))"

section \<open>Auxiliary definitions for the verification\<close>

text \<open>
  What each assignment of \<open>create_from_webhook_data\<close> extracts from the payload:
  \<open>None\<close> when the attribute is left as it is, the new value otherwise.
\<close>

definition keep :: "'a option \<Rightarrow> 'a \<Rightarrow> 'a" where
  "keep x old = (case x of None \<Rightarrow> old | Some v \<Rightarrow> v)"

definition swallow :: "exn + 'a \<Rightarrow> 'a option" where
  "swallow r = (case r of Inl e \<Rightarrow> None | Inr v \<Rightarrow> Some v)"

definition ext_sent_at :: "lib \<Rightarrow> pydict \<Rightarrow> pyval option" where
  "ext_sent_at L d =
     (if dcontains d ''sent'' then swallow (parse_if_str L (dget d ''sent'')) else None)"

definition ext_scheduled_at :: "lib \<Rightarrow> pydict \<Rightarrow> pyval option" where
  "ext_scheduled_at L d =
     (if dcontains d ''scheduledAt'' then swallow (parse_if_str L (dget d ''scheduledAt'')) else None)"

definition ext_created_at :: "lib \<Rightarrow> pydict \<Rightarrow> pyval option" where
  "ext_created_at L d =
     (if dcontains d ''createdAt'' \<or> dcontains d ''created_at''
      then swallow (parse_if_str L (py_or (dget d ''createdAt'') (dget d ''created_at'')))
      else None)"

definition job_of :: "pydict \<Rightarrow> pydict option" where
  "job_of d = (case dget_default d ''job'' (PDict []) of PDict job \<Rightarrow> Some job | _ \<Rightarrow> None)"

definition ext_job_budget :: "lib \<Rightarrow> pydict \<Rightarrow> pyval option" where
  "ext_job_budget L job =
     (let budget = py_or (py_or (dget job ''budget'') (dget job ''hourlyRate''))
                         (dget job ''fixedPrice'')
      in if truthy budget then map_option PFloat (swallow (py_float L budget)) else None)"

definition client_of :: "pydict \<Rightarrow> pydict option" where
  "client_of job = (case dget_default job ''client'' (PDict []) of PDict c \<Rightarrow> Some c | _ \<Rightarrow> None)"

definition ext_client :: "pydict \<Rightarrow> string \<Rightarrow> string \<Rightarrow> pyval" where
  "ext_client job nested flat =
     (case client_of job of Some c \<Rightarrow> dget c nested | None \<Rightarrow> dget job flat)"

definition job_fields :: "lib \<Rightarrow> pydict \<Rightarrow> proposal \<Rightarrow> proposal" where
  "job_fields L job p =
     p\<lparr> job_title := py_or (dget job ''title'') (dget job ''jobTitle''),
        job_budget := keep (ext_job_budget L job) (job_budget p),
        job_type := py_or (dget job ''type'') (dget job ''jobType''),
        client_email := ext_client job ''email'' ''clientEmail'',
        client_name := ext_client job ''name'' ''clientName'',
        client_company := ext_client job ''company'' ''companyName'' \<rparr>"





text \<open>A payload without some of its keys.\<close>

definition without_keys :: "string list \<Rightarrow> pydict \<Rightarrow> pydict" where
  "without_keys ks d = filter (\<lambda>(k, v). k \<notin> set ks) d"


text \<open>Concrete parameters, for evaluating the model on examples.\<close>

definition empty_store :: store where
  "empty_store = \<lparr> rows = [], next_pk = 1 \<rparr>"

definition sample_lib :: lib where
  "sample_lib =
     \<lparr> parse_datetime =
         (\<lambda>s. if s = ''2024-01-15T10:30:00Z'' then Inr (Some 1705314600)
              else if s = ''2024-02-30T10:00:00Z''
                then Inl (Exn ValueError ''day is out of range for month'')
              else Inr None),
       float_of_int = (\<lambda>i. Inr (Finite (of_int i))),
       float_of_str = (\<lambda>s. Inl (Exn ValueError ''could not convert string to float'')),
       str_other = (\<lambda>v. ''<value>''),
       json_loads =
         (\<lambda>s. if s = ''{}'' then Inr (PDict [])
              else if s = ''[]'' then Inr (PList [])
              else Inl (Exn JSONDecodeError ''Expecting value'')) \<rparr>"

definition sample_crm :: crm where
  "sample_crm =
     \<lparr> contacts_create =
         (\<lambda>h props. if ContactsCreate props \<in> set h
                     then Inl (Exn (ContactApiException (Some 409)) ''Conflict'')
                     else Inr ''c1''),
       contacts_search =
         (\<lambda>h email. if email = PStr ''a@b.com'' then Inr [''c1''] else Inr []),
       deals_create = (\<lambda>h props. Inr ''d1''),
       associations_create = (\<lambda>h c d. None) \<rparr>"

definition empty_world :: world where
  "empty_world = \<lparr> db = empty_store, crm_calls = [], logs = [] \<rparr>"

text \<open>The result document before the \<open>try\<close> block.\<close>

definition initial_result :: process_result where
  "initial_result = \<lparr>success = False, contact_id = None, deal_id = None, errors = []\<rparr>"


text \<open>The two checks of \<open>post\<close> that answer 401, and two environments.\<close>

definition token_mismatch :: "(string \<Rightarrow> string option) \<Rightarrow> request \<Rightarrow> bool" where
  "token_mismatch env req =
     (env_set env ''WEBHOOK_TOKEN'' \<and> Some (webhook_token req) \<noteq> env ''WEBHOOK_TOKEN'')"

definition basic_header_missing :: "(string \<Rightarrow> string option) \<Rightarrow> request \<Rightarrow> bool" where
  "basic_header_missing env req =
     (env_set env ''WEBHOOK_USERNAME'' \<and> env_set env ''WEBHOOK_PASSWORD'' \<and>
      take 6 (case http_authorization req of None \<Rightarrow> [] | Some h \<Rightarrow> h) \<noteq> ''Basic '')"

definition token_env :: "string \<Rightarrow> string option" where
  "token_env = map_of [(''WEBHOOK_TOKEN'', ''s3cret'')]"


section \<open>Field assignments in canonical form\<close>

lemma keep_simps [simp]: "keep None old = old" "keep (Some v) old = v" "keep x (keep x old) = keep x old"
  by (simp_all add: keep_def split: option.splits)

lemma set_sent_at_keep: "set_sent_at L d p = p\<lparr>sent_at := keep (ext_sent_at L d) (sent_at p)\<rparr>"
  by (simp add: set_sent_at_def ext_sent_at_def swallow_def split: sum.splits)

lemma set_scheduled_at_keep:
  "set_scheduled_at L d p = p\<lparr>scheduled_at := keep (ext_scheduled_at L d) (scheduled_at p)\<rparr>"
  by (simp add: set_scheduled_at_def ext_scheduled_at_def swallow_def split: sum.splits)

lemma set_created_at_keep:
  "set_created_at L d p = p\<lparr>created_at := keep (ext_created_at L d) (created_at p)\<rparr>"
  by (simp add: set_created_at_def ext_created_at_def swallow_def split: sum.splits)

lemma set_job_budget_keep:
  "set_job_budget L job p = p\<lparr>job_budget := keep (ext_job_budget L job) (job_budget p)\<rparr>"
  by (simp add: set_job_budget_def ext_job_budget_def swallow_def Let_def split: sum.splits)

lemma set_client_ext:
  "set_client job p =
     p\<lparr> client_email := ext_client job ''email'' ''clientEmail'',
        client_name := ext_client job ''name'' ''clientName'',
        client_company := ext_client job ''company'' ''companyName'' \<rparr>"
  by (simp add: set_client_def ext_client_def client_of_def split: pyval.splits)

lemma set_job_ext:
  "set_job L d p = (case job_of d of Some job \<Rightarrow> job_fields L job p | None \<Rightarrow> p)"
  by (simp add: set_job_def job_of_def job_fields_def set_job_budget_keep set_client_ext Let_def
      split: pyval.splits)

lemma assign_fields_ext:
  "assign_fields L d p =
     (case job_of d of Some job \<Rightarrow> job_fields L job | None \<Rightarrow> (\<lambda>q. q))
       (p\<lparr> opportunity_id :=
              py_or (py_or (dget d ''opportunityId'') (dget d ''opportunity_id'')) (PStr []),
            job_id := py_or (py_or (dget d ''jobId'') (dget d ''job_id'')) (PStr []),
            sent_at := keep (ext_sent_at L d) (sent_at p),
            scheduled_at := keep (ext_scheduled_at L d) (scheduled_at p),
            created_at := keep (ext_created_at L d) (created_at p),
            has_error := py_or (dget_default d ''error'' (PBool False))
                               (dget_default d ''hasError'' (PBool False)),
            error_code := py_or (dget d ''errorCode'') (dget d ''error_code''),
            error_message := py_or (dget d ''errorMessage'') (dget d ''error_message''),
            scanner_id := py_or (dget d ''scannerId'') (dget d ''scanner_id''),
            scanner_name := py_or (dget d ''scannerName'') (dget d ''scanner_name''),
            team_id := py_or (dget d ''teamId'') (dget d ''team_id''),
            team_name := py_or (dget d ''teamName'') (dget d ''team_name'') \<rparr>)
       \<lparr>raw_data := PDict d\<rparr>"
  by (simp add: assign_fields_def Let_def set_sent_at_keep set_scheduled_at_keep
      set_created_at_keep set_errors_def set_scanner_team_def set_job_ext split: option.splits)


lemma assign_fields_pk [simp]: "pk (assign_fields L d p) = pk p"
  by (cases "job_of d") (simp_all add: assign_fields_ext job_fields_def)

lemma assign_fields_proposal_id [simp]: "proposal_id (assign_fields L d p) = proposal_id p"
  by (cases "job_of d") (simp_all add: assign_fields_ext job_fields_def)

lemma assign_fields_raw_data [simp]: "raw_data (assign_fields L d p) = PDict d"
  by (cases "job_of d") (simp_all add: assign_fields_ext job_fields_def)

lemma assign_fields_status [simp]: "status (assign_fields L d p) = status p"
  by (cases "job_of d") (simp_all add: assign_fields_ext job_fields_def)

lemma assign_fields_created [simp]: "created (assign_fields L d p) = created p"
  by (cases "job_of d") (simp_all add: assign_fields_ext job_fields_def)

section \<open>The table under a delivery\<close>













section \<open>Repeated delivery\<close>



section \<open>Payloads without an identifier\<close>

lemma map_of_without_keys:
  "map_of (without_keys ks d) k = (if k \<in> set ks then None else map_of d k)"
  by (induction d) (auto simp: without_keys_def)

lemma dget_without_keys:
  "dget (without_keys ks d) k = (if k \<in> set ks then PNone else dget d k)"
  by (simp add: dget_def map_of_without_keys)




text \<open>
  C2. When none of the keys \<open>id\<close>, \<open>proposalId\<close>, \<open>_id\<close> of a payload gives a truthy
  value, \<open>create_from_webhook_data\<close> raises \<open>ValueError\<close> and the table is as it was:
  no row is created or changed.
\<close>

theorem missing_identifier_rejected:
  assumes "\<not> truthy (dget d ''id'')" and "\<not> truthy (dget d ''proposalId'')"
    and "\<not> truthy (dget d ''_id'')"
  shows "create_from_webhook_data L now st (PDict d) =
           (Inl (Exn ValueError ''Proposal ID not found in data''), st)"
  using assms
  by (simp add: create_from_webhook_data_def extract_proposal_id_def py_or_def no_proposal_id_def)

theorem missing_identifier_rejected_witness:
  "\<not> truthy (dget [(''jobId'', PStr ''j1'')] ''id'') \<and>
   \<not> truthy (dget [(''jobId'', PStr ''j1'')] ''proposalId'') \<and>
   \<not> truthy (dget [(''jobId'', PStr ''j1'')] ''_id'') \<and>
   create_from_webhook_data sample_lib 5 empty_store (PDict [(''jobId'', PStr ''j1'')]) =
     (Inl (Exn ValueError ''Proposal ID not found in data''), empty_store)"
proof -
  have a: "\<not> truthy (dget [(''jobId'', PStr ''j1'')] ''id'')"
    and b: "\<not> truthy (dget [(''jobId'', PStr ''j1'')] ''proposalId'')"
    and c: "\<not> truthy (dget [(''jobId'', PStr ''j1'')] ''_id'')"
    by (simp_all add: dget_def)
  from missing_identifier_rejected [OF a b c, of sample_lib 5 empty_store] a b c
  show ?thesis by simp
qed

text \<open>
  C10. A payload that has one of the keys \<open>id\<close>, \<open>proposalId\<close>, \<open>_id\<close>, with a falsy
  value, and no truthy value under any of the three, is treated as the same payload
  without those keys: the same \<open>ValueError\<close> is raised and the table is as it was. The
  presence of the key does not suffice.
\<close>

theorem falsy_identifier_is_missing:
  assumes "k \<in> {''id'', ''proposalId'', ''_id''}" and "map_of d k = Some v"
    and "\<not> truthy (dget d ''id'')" and "\<not> truthy (dget d ''proposalId'')"
    and "\<not> truthy (dget d ''_id'')"
  shows "\<not> truthy v \<and>
         create_from_webhook_data L now st (PDict d) =
           create_from_webhook_data L now st
             (PDict (without_keys [''id'', ''proposalId'', ''_id''] d)) \<and>
         create_from_webhook_data L now st (PDict d) = (Inl no_proposal_id, st) \<and>
         exn_class_of no_proposal_id = ValueError"
proof -
  have "dget d k = v" using assms(2) by (simp add: dget_def)
  then have "\<not> truthy v" using assms(1,3,4,5) by auto
  moreover have "\<not> truthy (extract_proposal_id d)"
    using assms(3,4,5) by (simp add: extract_proposal_id_def py_or_def)
  moreover have "\<not> truthy (extract_proposal_id (without_keys [''id'', ''proposalId'', ''_id''] d))"
    by (simp add: extract_proposal_id_def py_or_def dget_without_keys)
  ultimately show ?thesis
    by (simp add: create_from_webhook_data_def no_proposal_id_def)
qed

theorem falsy_identifier_is_missing_witness:
  "create_from_webhook_data sample_lib 5 empty_store
     (PDict [(''id'', PStr []), (''proposalId'', PInt 0), (''_id'', PBool False), (''jobId'', PStr ''j1'')]) =
   create_from_webhook_data sample_lib 5 empty_store (PDict [(''jobId'', PStr ''j1'')]) \<and>
   create_from_webhook_data sample_lib 5 empty_store
     (PDict [(''id'', PStr []), (''proposalId'', PInt 0), (''_id'', PBool False), (''jobId'', PStr ''j1'')]) =
   (Inl no_proposal_id, empty_store)"
proof -
  let ?d = "[(''id'', PStr []), (''proposalId'', PInt 0), (''_id'', PBool False), (''jobId'', PStr ''j1'')]"
  have k: "''proposalId'' \<in> {''id'', ''proposalId'', ''_id''}" by simp
  have m: "map_of ?d ''proposalId'' = Some (PInt 0)" by simp
  have a: "\<not> truthy (dget ?d ''id'')" and b: "\<not> truthy (dget ?d ''proposalId'')"
    and c: "\<not> truthy (dget ?d ''_id'')"
    by (simp_all add: dget_def)
  have w: "without_keys [''id'', ''proposalId'', ''_id''] ?d = [(''jobId'', PStr ''j1'')]"
    by (simp add: without_keys_def)
  from falsy_identifier_is_missing [OF k m a b c, of sample_lib 5 empty_store]
  have "create_from_webhook_data sample_lib 5 empty_store (PDict ?d) =
          create_from_webhook_data sample_lib 5 empty_store
            (PDict (without_keys [''id'', ''proposalId'', ''_id''] ?d))"
    and "create_from_webhook_data sample_lib 5 empty_store (PDict ?d) =
          (Inl no_proposal_id, empty_store)"
    by blast+
  then show ?thesis unfolding w by blast
qed

section \<open>Timestamps that do not parse\<close>



lemma swallow_Inl [simp]: "swallow (Inl e) = None"
  by (simp add: swallow_def)

lemma swallow_Inr [simp]: "swallow (Inr v) = Some v"
  by (simp add: swallow_def)


















section \<open>What a delivery overwrites\<close>













section \<open>Contact creation\<close>

lemma log_msg_simps [simp]:
  "crm_calls (log_msg lvl tag w) = crm_calls w"
  "db (log_msg lvl tag w) = db w"
  "logs (log_msg lvl tag w) = logs w @ [(lvl, tag)]"
  by (simp_all add: log_msg_def)

lemma record_call_simps [simp]:
  "crm_calls (record_call c w) = crm_calls w @ [c]"
  "db (record_call c w) = db w"
  "logs (record_call c w) = logs w"
  by (simp_all add: record_call_def)






lemma create_contact_other_exception:
  assumes "contacts_create C (crm_calls w)
             (contact_properties email firstname lastname phone company kwargs) = Inl e"
    and "\<forall>st. exn_class_of e \<noteq> ContactApiException st"
  shows "fst (create_contact C w email firstname lastname phone company kwargs) = Inl e"
  using assms by (simp add: create_contact_def Let_def split: exn_class.splits)




section \<open>Processing an opportunity\<close>

lemma process_try_errors:
  "errors (fst (snd (process_try L C w data result))) = errors result"
  by (simp add: process_try_def Let_def split: pyval.splits prod.splits sum.splits)

lemma process_try_success:
  "success result = id_truthy (deal_id result) \<Longrightarrow>
   success (fst (snd (process_try L C w data result))) =
     id_truthy (deal_id (fst (snd (process_try L C w data result))))"
  by (simp add: process_try_def Let_def split: pyval.splits prod.splits sum.splits)

lemma process_try_raised:
  "fst (process_try L C w data result) = Some e \<Longrightarrow>
   deal_id (fst (snd (process_try L C w data result))) = deal_id result \<and>
   success (fst (snd (process_try L C w data result))) = success result"
  by (simp add: process_try_def Let_def split: pyval.splits prod.splits sum.splits)

lemma process_fst:
  "fst (process_gigradar_opportunity L C w data) =
     Inr (case fst (process_try L C w data initial_result) of
            None \<Rightarrow> fst (snd (process_try L C w data initial_result))
          | Some e \<Rightarrow> (fst (snd (process_try L C w data initial_result)))\<lparr>errors := [exn_str e]\<rparr>)"
proof -
  have e: "errors (fst (snd (process_try L C w data initial_result))) = []"
    by (simp add: process_try_errors initial_result_def)
  show ?thesis
    using e
    by (cases "process_try L C w data initial_result")
      (auto simp: process_gigradar_opportunity_def initial_result_def split: option.splits)
qed

text \<open>
  C7. For every payload (of any shape), every CRM behaviour and every world,
  \<open>process_gigradar_opportunity\<close> returns a result document with \<open>success\<close>,
  \<open>contact_id\<close>, \<open>deal_id\<close> and \<open>errors\<close>; it never raises. When an exception leaves
  the \<open>try\<close> block its text is the one entry of \<open>errors\<close> and \<open>success\<close> is false;
  otherwise \<open>errors\<close> is empty. \<open>success\<close> is the truth value of \<open>deal_id\<close>.
\<close>

theorem process_never_raises:
  "\<exists>r. fst (process_gigradar_opportunity L C w data) = Inr r \<and>
       success r = id_truthy (deal_id r) \<and>
       (case fst (process_try L C w data
                    \<lparr>success = False, contact_id = None, deal_id = None, errors = []\<rparr>) of
          None \<Rightarrow> errors r = []
        | Some e \<Rightarrow> errors r = [exn_str e] \<and> \<not> success r \<and> deal_id r = None)"
proof -
  let ?t = "process_try L C w data initial_result"
  have e: "errors (fst (snd ?t)) = []"
    by (simp add: process_try_errors initial_result_def)
  have s: "success (fst (snd ?t)) = id_truthy (deal_id (fst (snd ?t)))"
    by (rule process_try_success) (simp add: initial_result_def id_truthy_def)
  show ?thesis
  proof (cases "fst ?t")
    case None
    then show ?thesis
      using e s by (simp add: process_fst initial_result_def [symmetric])
  next
    case (Some x)
    from process_try_raised [OF Some] have "deal_id (fst (snd ?t)) = None" "\<not> success (fst (snd ?t))"
      by (simp_all add: initial_result_def)
    then show ?thesis
      using Some by (simp add: process_fst initial_result_def [symmetric] id_truthy_def)
  qed
qed


theorem process_never_raises_witness:
  "\<exists>r. fst (process_gigradar_opportunity sample_lib sample_crm empty_world (PList [])) = Inr r \<and>
       errors r = [''object has no attribute get''] \<and> \<not> success r \<and> deal_id r = None"
proof -
  have t: "fst (process_try sample_lib sample_crm empty_world (PList [])
                  \<lparr>success = False, contact_id = None, deal_id = None, errors = []\<rparr>) = Some no_get"
    by (simp add: process_try_def)
  from process_never_raises [of sample_lib sample_crm empty_world "PList []"]
  have "\<exists>r. fst (process_gigradar_opportunity sample_lib sample_crm empty_world (PList [])) = Inr r \<and>
       success r = id_truthy (deal_id r) \<and>
       errors r = [''object has no attribute get''] \<and> \<not> success r \<and> deal_id r = None"
    by (simp add: t no_get_def)
  then show ?thesis by blast
qed

section \<open>The placeholder contact\<close>


















section \<open>The status of a webhook response\<close>

lemma JsonResponse_status [simp]: "status_code (JsonResponse doc st) = st"
  by (simp add: JsonResponse_def)



lemma post_try_unfold:
  "post_try L C env now w req =
     (if token_mismatch env req then
        (Inr (JsonResponse [(''error'', PStr ''Invalid webhook token'')] 401),
         log_msg WARNING ''invalid webhook token'' w)
      else
        (case json_loads L (body req) of
           Inl e \<Rightarrow>
             if exn_class_of e = JSONDecodeError then
               (Inr (JsonResponse [(''error'', PStr ''Invalid JSON format'')] 400),
                log_msg ERROR ''invalid JSON'' w)
             else (Inl e, w)
         | Inr payload \<Rightarrow>
             if basic_header_missing env req
             then (Inr (JsonResponse [(''error'', PStr ''Authentication required'')] 401), w)
             else
               (case payload of
                  PDict p \<Rightarrow>
                    (let event_type = py_or (dget p ''event'') (dget p ''type'');
                         data = py_or (dget p ''data'') payload;
                         w1 = log_msg INFO ''webhook event received'' w
                     in if event_type = PStr ''GIGRADAR.OPPORTUNITY.CREATE'' then
                          handle_opportunity_create L C env w1 data
                        else if event_type = PStr ''GIGRADAR.PROPOSAL.UPDATE'' \<or>
                                event_type = PStr ''GIGRADAR.PROPOSAL.CREATE'' then
                          handle_proposal_update L now w1 data
                        else
                          (Inr (JsonResponse
                                  [(''status'', PStr ''received''),
                                   (''message'', PStr (''Event '' @ py_str L event_type
                                                        @ '' received but not processed''))] 200),
                           log_msg WARNING ''unknown event type'' w1))
                | _ \<Rightarrow> (Inl no_get, w))))"
  unfolding post_try_def token_mismatch_def basic_header_missing_def ..

lemma post_try_mismatch:
  "token_mismatch env req \<Longrightarrow>
   post_try L C env now w req =
     (Inr (JsonResponse [(''error'', PStr ''Invalid webhook token'')] 401),
      log_msg WARNING ''invalid webhook token'' w)"
  by (simp add: post_try_unfold)









text \<open>
  C8. When \<open>WEBHOOK_TOKEN\<close> is configured (set and not empty) and the token of the path
  differs from it, the response is 401, the proposal table is as it was and no call to the
  CRM is made.
\<close>

theorem invalid_token_rejected:
  assumes "env ''WEBHOOK_TOKEN'' = Some t" and "t \<noteq> []" and "webhook_token req \<noteq> t"
  shows "\<exists>r. fst (post L C env now w req) = Inr r \<and> status_code r = 401 \<and>
              db (snd (post L C env now w req)) = db w \<and>
              crm_calls (snd (post L C env now w req)) = crm_calls w"
proof -
  have "token_mismatch env req"
    using assms by (auto simp: token_mismatch_def env_set_def id_truthy_def)
  then show ?thesis by (simp add: post_def post_try_mismatch)
qed


theorem invalid_token_rejected_witness:
  "token_env ''WEBHOOK_TOKEN'' = Some ''s3cret'' \<and> ''s3cret'' \<noteq> [] \<and> ''wrong'' \<noteq> ''s3cret'' \<and>
   (\<exists>r. fst (post sample_lib sample_crm token_env 0 empty_world
              \<lparr>webhook_token = ''wrong'', body = ''{}'', http_authorization = None\<rparr>) = Inr r \<and>
        status_code r = 401 \<and>
        db (snd (post sample_lib sample_crm token_env 0 empty_world
              \<lparr>webhook_token = ''wrong'', body = ''{}'', http_authorization = None\<rparr>)) =
          empty_store \<and>
        crm_calls (snd (post sample_lib sample_crm token_env 0 empty_world
              \<lparr>webhook_token = ''wrong'', body = ''{}'', http_authorization = None\<rparr>)) = [])"
proof -
  let ?req = "\<lparr>webhook_token = ''wrong'', body = ''{}'', http_authorization = None\<rparr>"
  have a: "token_env ''WEBHOOK_TOKEN'' = Some ''s3cret''" by (simp add: token_env_def)
  have b: "''s3cret'' \<noteq> []" by simp
  have c: "webhook_token ?req \<noteq> ''s3cret''" by simp
  from invalid_token_rejected
    [of token_env "''s3cret''" ?req sample_lib sample_crm 0 empty_world, OF a b c] a
  show ?thesis by (simp add: empty_world_def)
qed

end
